theory Spec2Isabelle
  imports Complex_Main "HOL-Library.Sublist"
begin

section \<open>JavaScript values\<close>

text \<open>
  The widget is generic in its item type (\<open>T extends string | Record<string, any>\<close>) and
  validates at run time what an async provider resolves with, so items, selections and
  provider results are all values of one type of JavaScript values. Modelling choices:
  numbers are safe integers (magnitude below \<open>2^53\<close>, which \<open>String(n)\<close> prints as their
  decimal numeral), strings are lists of 7-bit (ASCII) characters, on which
  \<open>toLowerCase\<close> lowers \<open>A\<close> to \<open>Z\<close> only, functions and symbols do not occur,
  an object is the list of its own enumerable properties (keys distinct), inherited
  (prototype) properties are not modelled, and an object is identified with its contents
  (\<open>===\<close> on two objects compares their contents).
\<close>

datatype jsvalue =
    JUndefined
  | JNull
  | JBool bool
  | JNum int
  | JStr string
  | JArr "jsvalue list"
  | JObj "(string \<times> jsvalue) list"

text \<open>What a \<open>throw\<close> carries: an \<open>Error\<close> object (name, message) or any other value.\<close>

datatype thrown = ErrorObj string string | NonError jsvalue

definition digit :: "nat \<Rightarrow> char" where
  "digit n = ''0123456789'' ! n"

function show_nat :: "nat \<Rightarrow> string" where
  "show_nat n = (if n < 10 then [digit n] else show_nat (n div 10) @ [digit (n mod 10)])"
  by pat_completeness auto
termination
  by (relation "measure id") auto

definition show_int :: "int \<Rightarrow> string" where
  "show_int i = (if i < 0 then CHR ''-'' # show_nat (nat (- i)) else show_nat (nat i))"

fun join :: "string \<Rightarrow> string list \<Rightarrow> string" where
  "join sep [] = []"
| "join sep [x] = x"
| "join sep (x # y # ys) = x @ sep @ join sep (y # ys)"

text \<open>\<open>String(v)\<close>. An array prints its elements joined by commas, \<open>null\<close> and
  \<open>undefined\<close> elements as the empty string.\<close>

fun toString :: "jsvalue \<Rightarrow> string" where
  "toString JUndefined = ''undefined''"
| "toString JNull = ''null''"
| "toString (JBool b) = (if b then ''true'' else ''false'')"
| "toString (JNum n) = show_int n"
| "toString (JStr s) = s"
| "toString (JArr xs) =
     join '','' (map (\<lambda>x. if x = JUndefined \<or> x = JNull then [] else toString x) xs)"
| "toString (JObj kvs) = ''[object Object]''"

text \<open>\<open>typeof v === 'string'\<close>, \<open>Array.isArray(v)\<close>,
  \<open>typeof v === 'object' && v !== null\<close>, and \<open>!v\<close>.\<close>

fun isString :: "jsvalue \<Rightarrow> bool" where
  "isString (JStr s) = True"
| "isString v = False"

fun isArray :: "jsvalue \<Rightarrow> bool" where
  "isArray (JArr xs) = True"
| "isArray v = False"

fun isObject :: "jsvalue \<Rightarrow> bool" where
  "isObject (JArr xs) = True"
| "isObject (JObj kvs) = True"
| "isObject v = False"

fun falsy :: "jsvalue \<Rightarrow> bool" where
  "falsy JUndefined = True"
| "falsy JNull = True"
| "falsy (JBool b) = (\<not> b)"
| "falsy (JNum n) = (n = 0)"
| "falsy (JStr s) = (s = [])"
| "falsy v = False"

text \<open>\<open>a ?? b\<close>.\<close>

definition nullish :: "jsvalue \<Rightarrow> jsvalue \<Rightarrow> jsvalue" where
  "nullish a b = (if a = JNull \<or> a = JUndefined then b else a)"

text \<open>The messages of the engine's own \<open>TypeError\<close>s (V8's wording).\<close>

definition quote :: string where
  "quote = [CHR 0x27]"

definition readError :: "string \<Rightarrow> string \<Rightarrow> thrown" where
  "readError what k =
     ErrorObj ''TypeError''
       (''Cannot read properties of '' @ what @ '' (reading '' @ quote @ k @ quote @ '')'')"

definition convertError :: thrown where
  "convertError = ErrorObj ''TypeError'' ''Cannot convert undefined or null to object''"

text \<open>\<open>v[k]\<close>: reading a property of \<open>null\<close> or \<open>undefined\<close> throws; a string and an array
  have \<open>length\<close> and their indices; a missing property reads as \<open>undefined\<close>.\<close>

definition indexOfKey :: "string \<Rightarrow> nat \<Rightarrow> nat option" where
  "indexOfKey k n = find (\<lambda>i. show_nat i = k) [0..<n]"

fun getProp :: "jsvalue \<Rightarrow> string \<Rightarrow> thrown + jsvalue" where
  "getProp JUndefined k = Inl (readError ''undefined'' k)"
| "getProp JNull k = Inl (readError ''null'' k)"
| "getProp (JBool b) k = Inr JUndefined"
| "getProp (JNum n) k = Inr JUndefined"
| "getProp (JStr s) k =
     Inr (if k = ''length'' then JNum (int (length s))
          else case indexOfKey k (length s) of
                 Some i \<Rightarrow> JStr [s ! i]
               | None \<Rightarrow> JUndefined)"
| "getProp (JArr xs) k =
     Inr (if k = ''length'' then JNum (int (length xs))
          else case indexOfKey k (length xs) of
                 Some i \<Rightarrow> xs ! i
               | None \<Rightarrow> JUndefined)"
| "getProp (JObj kvs) k = Inr (case map_of kvs k of Some v \<Rightarrow> v | None \<Rightarrow> JUndefined)"

text \<open>\<open>Object.values(v)\<close>.\<close>

fun Object_values :: "jsvalue \<Rightarrow> thrown + jsvalue list" where
  "Object_values JUndefined = Inl convertError"
| "Object_values JNull = Inl convertError"
| "Object_values (JBool b) = Inr []"
| "Object_values (JNum n) = Inr []"
| "Object_values (JStr s) = Inr (map (\<lambda>c. JStr [c]) s)"
| "Object_values (JArr xs) = Inr xs"
| "Object_values (JObj kvs) = Inr (map snd kvs)"

text \<open>\<open>s.toLowerCase()\<close> on ASCII, and \<open>s.includes(q)\<close>.\<close>

definition lowerChar :: "char \<Rightarrow> char" where
  "lowerChar c =
     (case map_of (zip ''ABCDEFGHIJKLMNOPQRSTUVWXYZ'' ''abcdefghijklmnopqrstuvwxyz'') c of
        Some l \<Rightarrow> l
      | None \<Rightarrow> c)"

definition toLowerCase :: "string \<Rightarrow> string" where
  "toLowerCase s = map lowerChar s"

fun str_includes :: "string \<Rightarrow> string \<Rightarrow> bool" where
  "str_includes [] q = (q = [])"
| "str_includes (c # cs) q = (prefix q (c # cs) \<or> str_includes cs q)"

text \<open>\<open>xs.some(f)\<close> and \<open>xs.filter(f)\<close> for a callback that may throw: the first throw
  ends the iteration.\<close>

fun someM :: "('a \<Rightarrow> thrown + bool) \<Rightarrow> 'a list \<Rightarrow> thrown + bool" where
  "someM f [] = Inr False"
| "someM f (x # xs) =
     (case f x of
        Inl e \<Rightarrow> Inl e
      | Inr b \<Rightarrow> if b then Inr True else someM f xs)"

fun filterM :: "('a \<Rightarrow> thrown + bool) \<Rightarrow> 'a list \<Rightarrow> thrown + 'a list" where
  "filterM f [] = Inr []"
| "filterM f (x # xs) =
     (case f x of
        Inl e \<Rightarrow> Inl e
      | Inr b \<Rightarrow>
          (case filterM f xs of
             Inl e \<Rightarrow> Inl e
           | Inr ys \<Rightarrow> Inr (if b then x # ys else ys)))"

section \<open>The filter engine (useFilteredItems)\<close>

datatype lookup_type = Combobox | Dropdown

text \<open>The callback of the record branch of \<open>filterItems\<close>: with configured match fields,
  some field's string form contains the lowered query; with none, some value's does.\<close>

definition itemMatches :: "string list option \<Rightarrow> string \<Rightarrow> jsvalue \<Rightarrow> thrown + bool" where
  "itemMatches matchFields searchLower item =
     (case matchFields of
        Some (f # fs) \<Rightarrow>
          someM (\<lambda>field.
                   case getProp item field of
                     Inl e \<Rightarrow> Inl e
                   | Inr v \<Rightarrow> Inr (str_includes (toLowerCase (toString v)) searchLower))
                (f # fs)
      | _ \<Rightarrow>
          (case Object_values item of
             Inl e \<Rightarrow> Inl e
           | Inr vs \<Rightarrow>
               Inr (list_ex (\<lambda>v. str_includes (toLowerCase (toString v)) searchLower) vs)))"

text \<open>\<open>filterItems(searchText, baseItems)\<close>: the result is the list handed to
  \<open>setFilteredItems\<close>; \<open>Inl\<close> is a throw before anything is set.\<close>

definition filterItems ::
  "lookup_type \<Rightarrow> bool \<Rightarrow> string list option \<Rightarrow> string \<Rightarrow> jsvalue list \<Rightarrow> thrown + jsvalue list"
where
  "filterItems ty isStringType matchFields searchText baseItems =
     (if searchText = [] then Inr baseItems
      else if ty = Dropdown then Inr baseItems
      else
        let searchLower = toLowerCase searchText in
        if isStringType
        then Inr (filter (\<lambda>item. str_includes (toLowerCase (toString item)) searchLower) baseItems)
        else filterM (itemMatches matchFields searchLower) baseItems)"

section \<open>The widget: configuration and state (Lookup)\<close>

text \<open>The \<open>items\<close> prop is a static array or an async provider function. What a provider
  call settles with arrives later, as an outcome.\<close>

datatype source = Static "jsvalue list" | Callback

datatype dropdown_position = Auto | Below | Above | Left | Right

datatype width = WidthAuto | WidthPx real

record lookup_props =
  items :: source
  lookupType :: lookup_type
  multipleSelect :: bool
  itemKey :: "string option"
  matchFields :: "string list option"
  rowHeight :: real
  maxHeight :: real
  dropdownPosition :: dropdown_position
  dropdownWidth :: "width option"
  disabled :: bool
  debounceMs :: "int option"
  minSearchLength :: int

text \<open>The React state of the component, its refs (the pending debounce timer with the
  text it captured, the current abort controller, the signals already aborted, the
  provider calls in flight with the text each was issued for) and, as an output trace,
  the values \<open>onSelect\<close> was called with. \<open>null\<close> is \<open>JNull\<close>, a missing prop is
  \<open>JUndefined\<close>.\<close>

record lookup_state =
  inputValue :: string
  isOpen :: bool
  isFocused :: bool
  isLoading :: bool
  error :: "string option"
  displayedSelected :: jsvalue
  focusedIndex :: int
  workingSelected :: jsvalue
  filteredItems :: "jsvalue list"
  resolvedPosition :: dropdown_position
  debounceTimeout :: "string option"
  abortController :: "nat option"
  aborted :: "nat list"
  nextCall :: nat
  pending :: "(nat \<times> string) list"
  onSelectCalls :: "jsvalue list"

definition baseItems :: "lookup_props \<Rightarrow> jsvalue list" where
  "baseItems p = (case items p of Static xs \<Rightarrow> xs | Callback \<Rightarrow> [])"

definition isCallback :: "lookup_props \<Rightarrow> bool" where
  "isCallback p = (case items p of Static xs \<Rightarrow> False | Callback \<Rightarrow> True)"

text \<open>\<open>baseItems.length > 0 && typeof baseItems[0] === 'string'\<close>.\<close>

definition isStringType :: "lookup_props \<Rightarrow> bool" where
  "isStringType p = (case baseItems p of [] \<Rightarrow> False | x # xs \<Rightarrow> isString x)"

text \<open>The state after the first render, for the \<open>selected\<close> prop \<open>sel\<close>.\<close>

definition initialState :: "lookup_props \<Rightarrow> jsvalue \<Rightarrow> lookup_state" where
  "initialState p sel =
     \<lparr> inputValue = [], isOpen = False, isFocused = False, isLoading = False,
       error = None, displayedSelected = sel, focusedIndex = - 1,
       workingSelected = JNull,
       filteredItems = (if isCallback p then [] else baseItems p),
       resolvedPosition = Below, debounceTimeout = None, abortController = None,
       aborted = [], nextCall = 0, pending = [], onSelectCalls = [] \<rparr>"

text \<open>\<open>!v ? [] : Array.isArray(v) ? v : [v]\<close>.\<close>

definition toArray :: "jsvalue \<Rightarrow> jsvalue list" where
  "toArray v = (if falsy v then [] else case v of JArr xs \<Rightarrow> xs | _ \<Rightarrow> [v])"

definition selectedArray :: "lookup_state \<Rightarrow> jsvalue list" where
  "selectedArray s = toArray (displayedSelected s)"

definition activeSelectedArray :: "lookup_props \<Rightarrow> lookup_state \<Rightarrow> jsvalue list" where
  "activeSelectedArray p s =
     (if \<not> multipleSelect p then selectedArray s
      else toArray (nullish (workingSelected s) (displayedSelected s)))"

section \<open>Async loading (handleInputChange, executeCallback)\<close>

datatype outcome = Fulfil jsvalue | Reject thrown

text \<open>\<open>executeCallback\<close> up to its \<open>await\<close>: abort the controller in the ref, install a
  new one, apply the minimum-length gate, otherwise set loading and call the provider.\<close>

definition executeCallback :: "lookup_props \<Rightarrow> string \<Rightarrow> lookup_state \<Rightarrow> lookup_state" where
  "executeCallback p v s =
     (let s1 = (case abortController s of
                  Some c \<Rightarrow> s\<lparr>aborted := c # aborted s\<rparr>
                | None \<Rightarrow> s);
          c = nextCall s1;
          s2 = s1\<lparr>abortController := Some c, nextCall := Suc c\<rparr>
      in if int (length v) < minSearchLength p
         then s2\<lparr>filteredItems := [], isLoading := False\<rparr>
         else s2\<lparr>isLoading := True, pending := pending s2 @ [(c, v)]\<rparr>)"

text \<open>The \<open>try\<close> block after the provider fulfilled with \<open>results\<close> and the signal was
  found not aborted: the two validations, \<open>filterItems\<close>, the auto-focus.\<close>

definition acceptResults ::
  "lookup_props \<Rightarrow> string \<Rightarrow> jsvalue \<Rightarrow> lookup_state \<Rightarrow> thrown + lookup_state" where
  "acceptResults p v results s =
     (case results of
        JArr rs \<Rightarrow>
          if rs \<noteq> [] \<and> \<not> isString (hd rs) \<and> \<not> isObject (hd rs)
          then Inl (ErrorObj ''Error'' ''Items must be strings or objects'')
          else (case filterItems (lookupType p) (isStringType p) (matchFields p) v rs of
                  Inl e \<Rightarrow> Inl e
                | Inr fs \<Rightarrow>
                    Inr (if rs \<noteq> [] then s\<lparr>filteredItems := fs, focusedIndex := 0\<rparr>
                         else s\<lparr>filteredItems := fs\<rparr>))
      | _ \<Rightarrow> Inl (ErrorObj ''Error'' ''Async callback must return an array of items''))"

text \<open>The \<open>catch\<close> block.\<close>

definition catchError :: "thrown \<Rightarrow> lookup_state \<Rightarrow> lookup_state" where
  "catchError e s =
     (case e of
        ErrorObj name message \<Rightarrow>
          if name = ''AbortError'' then s
          else s\<lparr>error := Some message, filteredItems := []\<rparr>
      | NonError v \<Rightarrow>
          s\<lparr>error := Some ''Failed to load items. Please try again.'', filteredItems := []\<rparr>)"

text \<open>The continuation of \<open>executeCallback\<close> when the provider call \<open>c\<close> settles: the rest
  of the \<open>try\<close>, the \<open>catch\<close>, and the \<open>finally\<close>. A call that is not in flight has no
  continuation.\<close>

definition settle :: "lookup_props \<Rightarrow> nat \<Rightarrow> outcome \<Rightarrow> lookup_state \<Rightarrow> lookup_state" where
  "settle p c out s =
     (case map_of (pending s) c of
        None \<Rightarrow> s
      | Some v \<Rightarrow>
          let s0 = s\<lparr>pending := filter (\<lambda>cv. fst cv \<noteq> c) (pending s)\<rparr>;
              s1 = (case out of
                      Fulfil results \<Rightarrow>
                        if c \<in> set (aborted s0) then s0
                        else (case acceptResults p v results s0 of
                                Inl e \<Rightarrow> catchError e s0
                              | Inr s' \<Rightarrow> s')
                    | Reject e \<Rightarrow> catchError e s0)
          in s1\<lparr>isLoading := False\<rparr>)"

text \<open>\<open>handleInputChange\<close>. In the static branch a throw of \<open>filterItems\<close> rejects the
  handler's promise and leaves the candidate set as it was.\<close>

definition handleInputChange :: "lookup_props \<Rightarrow> string \<Rightarrow> lookup_state \<Rightarrow> lookup_state" where
  "handleInputChange p v s =
     (let s1 = s\<lparr>inputValue := v, isOpen := True, focusedIndex := - 1, error := None\<rparr>
      in if lookupType p = Dropdown then s1
         else if isCallback p then
           (let s2 = s1\<lparr>debounceTimeout := None\<rparr>
            in if (case debounceMs p of Some d \<Rightarrow> d \<noteq> 0 | None \<Rightarrow> False)
               then s2\<lparr>debounceTimeout := Some v\<rparr>
               else executeCallback p v s2)
         else (case filterItems (lookupType p) (isStringType p) (matchFields p) v (baseItems p) of
                 Inl e \<Rightarrow> s1
               | Inr fs \<Rightarrow> s1\<lparr>filteredItems := fs\<rparr>))"

text \<open>The debounce timer fires.\<close>

definition timerFires :: "lookup_props \<Rightarrow> lookup_state \<Rightarrow> lookup_state" where
  "timerFires p s =
     (case debounceTimeout s of
        None \<Rightarrow> s
      | Some v \<Rightarrow> executeCallback p v (s\<lparr>debounceTimeout := None\<rparr>))"

section \<open>Selection (handleSelectItem and its callers)\<close>

definition bindE :: "thrown + 'a \<Rightarrow> ('a \<Rightarrow> thrown + 'b) \<Rightarrow> thrown + 'b" where
  "bindE m f = (case m of Inl e \<Rightarrow> Inl e | Inr a \<Rightarrow> f a)"

text \<open>\<open>handleSelectItem\<close>. In single-select the input is blurred from a timer afterwards;
  that blur is a later call of \<open>handleBlur\<close>. The screen-reader announcement touches the
  document only, not the state.\<close>

definition handleSelectItem :: "lookup_props \<Rightarrow> jsvalue \<Rightarrow> lookup_state \<Rightarrow> lookup_state" where
  "handleSelectItem p selected s =
     (if multipleSelect p
      then s\<lparr>workingSelected := selected,
             onSelectCalls := onSelectCalls s @ [selected],
             inputValue := []\<rparr>
      else s\<lparr>displayedSelected := selected,
             onSelectCalls := onSelectCalls s @ [selected],
             inputValue := [],
             isOpen := False,
             isFocused := False\<rparr>)"

text \<open>\<open>handleRemoveSelected(index)\<close>: the pill's own index is dropped; a single survivor
  is reported and stored as a plain item.\<close>

definition handleRemoveSelected :: "lookup_props \<Rightarrow> nat \<Rightarrow> lookup_state \<Rightarrow> lookup_state" where
  "handleRemoveSelected p index s =
     (if \<not> multipleSelect p \<or> selectedArray s = [] then s
      else
        let newSelected = map snd (filter (\<lambda>iv. fst iv \<noteq> index) (enumerate 0 (selectedArray s)));
            valueToSet = (if length newSelected = 1 then hd newSelected else JArr newSelected)
        in s\<lparr>displayedSelected := valueToSet,
             onSelectCalls := onSelectCalls s @ [valueToSet]\<rparr>)"

definition handleClearAll :: "lookup_props \<Rightarrow> lookup_state \<Rightarrow> lookup_state" where
  "handleClearAll p s =
     (if \<not> multipleSelect p then s
      else s\<lparr>displayedSelected := JArr [],
             onSelectCalls := onSelectCalls s @ [JArr []],
             inputValue := []\<rparr>)"

text \<open>The property name \<open>itemKey\<close> reads: an absent \<open>itemKey\<close> is the key \<open>undefined\<close>.\<close>

definition keyName :: "string option \<Rightarrow> string" where
  "keyName k = (case k of Some n \<Rightarrow> n | None \<Rightarrow> ''undefined'')"

text \<open>\<open>handleKeyboardSelect(index)\<close>. A throw (reading the key of \<open>null\<close> or
  \<open>undefined\<close>) leaves the handler before any state is set.\<close>

definition handleKeyboardSelect ::
  "lookup_props \<Rightarrow> int \<Rightarrow> lookup_state \<Rightarrow> thrown + lookup_state" where
  "handleKeyboardSelect p index s =
     (if 0 \<le> index \<and> index < int (length (filteredItems s)) then
        (let item = filteredItems s ! nat index in
         if multipleSelect p then
           bindE (if isStringType p then Inr item else getProp item (keyName (itemKey p)))
             (\<lambda>itemValue.
           bindE (someM (\<lambda>s'. if isStringType p then Inr (s' = item)
                               else bindE (getProp s' (keyName (itemKey p)))
                                      (\<lambda>v. Inr (v = itemValue)))
                        (activeSelectedArray p s))
             (\<lambda>isAlreadySelected.
           bindE (if isAlreadySelected
                  then filterM (\<lambda>s'. if isStringType p then Inr (s' \<noteq> item)
                                     else bindE (getProp s' (keyName (itemKey p)))
                                            (\<lambda>v. Inr (v \<noteq> itemValue)))
                               (activeSelectedArray p s)
                  else Inr (activeSelectedArray p s @ [item]))
             (\<lambda>newSelected. Inr (handleSelectItem p (JArr newSelected) s))))
         else Inr (handleSelectItem p item s))
      else Inr s)"

section \<open>Rows of the list (VirtualizedList)\<close>

text \<open>\<open>xs.find(f)\<close> for a callback that may throw.\<close>

fun findM :: "('a \<Rightarrow> thrown + bool) \<Rightarrow> 'a list \<Rightarrow> thrown + 'a option" where
  "findM f [] = Inr None"
| "findM f (x # xs) =
     (case f x of
        Inl e \<Rightarrow> Inl e
      | Inr b \<Rightarrow> if b then Inr (Some x) else findM f xs)"

definition isStringList :: "jsvalue list \<Rightarrow> bool" where
  "isStringList its = (case its of [] \<Rightarrow> False | x # xs \<Rightarrow> isString x)"

definition selectedIsString :: "jsvalue \<Rightarrow> bool" where
  "selectedIsString selected =
     (isString selected \<or> (case selected of JArr (x # xs) \<Rightarrow> isString x | _ \<Rightarrow> False))"

definition selectedItems :: "jsvalue \<Rightarrow> jsvalue list" where
  "selectedItems selected = (case selected of JArr xs \<Rightarrow> xs | _ \<Rightarrow> [selected])"

text \<open>The row at \<open>index\<close> (below the row count), as rendered for the list's props, and
  its \<open>handleClick\<close>: the value handed to the list's \<open>onSelect\<close>.\<close>

definition rowItemValue :: "string option \<Rightarrow> jsvalue list \<Rightarrow> nat \<Rightarrow> thrown + jsvalue" where
  "rowItemValue key its index =
     (if isStringList its then Inr (its ! index) else getProp (its ! index) (keyName key))"

definition rowIsSelected :: "string option \<Rightarrow> jsvalue \<Rightarrow> jsvalue \<Rightarrow> thrown + bool" where
  "rowIsSelected key selected itemValue =
     (if selectedIsString selected then Inr (itemValue \<in> set (selectedItems selected))
      else bindE (findM (\<lambda>s'. bindE (getProp s' (keyName key)) (\<lambda>v. Inr (v = itemValue)))
                        (selectedItems selected))
             (\<lambda>found. Inr (case found of None \<Rightarrow> False | Some s' \<Rightarrow> \<not> falsy s')))"

definition rowHandleClick ::
  "bool \<Rightarrow> string option \<Rightarrow> jsvalue list \<Rightarrow> jsvalue \<Rightarrow> nat \<Rightarrow> thrown + jsvalue" where
  "rowHandleClick multi key its selected index =
     bindE (rowItemValue key its index)
       (\<lambda>itemValue.
     bindE (rowIsSelected key selected itemValue)
       (\<lambda>isSelected.
     if multi then
       bindE (if isSelected
              then filterM (\<lambda>s'. if selectedIsString selected then Inr (s' \<noteq> itemValue)
                                 else bindE (getProp s' (keyName key))
                                        (\<lambda>v. Inr (v \<noteq> itemValue)))
                           (selectedItems selected)
              else Inr (selectedItems selected @
                        [if selectedIsString selected then itemValue else its ! index]))
         (\<lambda>newSelected. Inr (JArr newSelected))
     else Inr (if selectedIsString selected then itemValue else its ! index)))"

text \<open>The \<open>selected\<close> prop the widget hands to the list, in its string and its record
  branch.\<close>

definition getStringListSelected :: "lookup_props \<Rightarrow> lookup_state \<Rightarrow> jsvalue" where
  "getStringListSelected p s =
     (if multipleSelect p
      then (if isArray (nullish (workingSelected s) (displayedSelected s))
            then nullish (workingSelected s) (displayedSelected s) else JArr [])
      else (if isString (displayedSelected s) then displayedSelected s else JStr []))"

definition getObjectListSelected :: "lookup_props \<Rightarrow> lookup_state \<Rightarrow> jsvalue" where
  "getObjectListSelected p s =
     (if multipleSelect p
      then (if isArray (nullish (workingSelected s) (displayedSelected s))
            then nullish (workingSelected s) (displayedSelected s) else JArr [])
      else (case displayedSelected s of
              JArr xs \<Rightarrow> nullish (case xs of [] \<Rightarrow> JUndefined | x # _ \<Rightarrow> x) (JObj [])
            | d \<Rightarrow> nullish d (JObj [])))"

text \<open>A pointer press on the row at \<open>index\<close> of the open list. The string branch passes
  no \<open>itemKey\<close> to the list. Where there is no such row the state stays.\<close>

definition rowClick :: "lookup_props \<Rightarrow> nat \<Rightarrow> lookup_state \<Rightarrow> thrown + lookup_state" where
  "rowClick p index s =
     (if index < length (filteredItems s) then
        bindE (if isStringType p
               then rowHandleClick (multipleSelect p) None (filteredItems s)
                      (getStringListSelected p s) index
               else rowHandleClick (multipleSelect p) (itemKey p) (filteredItems s)
                      (getObjectListSelected p s) index)
          (\<lambda>selected. Inr (handleSelectItem p selected s))
      else Inr s)"

section \<open>Opening and closing\<close>

definition handleFocus :: "lookup_props \<Rightarrow> lookup_state \<Rightarrow> lookup_state" where
  "handleFocus p s =
     (let s1 = s\<lparr>isFocused := True, isOpen := True, focusedIndex := - 1, error := None\<rparr>;
          s2 = (if multipleSelect p then s1\<lparr>workingSelected := displayedSelected s\<rparr> else s1)
      in if \<not> isCallback p \<and> inputValue s = [] then s2\<lparr>filteredItems := baseItems p\<rparr> else s2)"

definition handleBlur :: "lookup_props \<Rightarrow> lookup_state \<Rightarrow> lookup_state" where
  "handleBlur p s =
     (let s1 = s\<lparr>isFocused := False, isOpen := False\<rparr>
      in if multipleSelect p \<and> workingSelected s \<noteq> JNull
         then s1\<lparr>displayedSelected := workingSelected s, workingSelected := JNull\<rparr>
         else s1)"

definition handleClickOutside :: "lookup_props \<Rightarrow> lookup_state \<Rightarrow> lookup_state" where
  "handleClickOutside p s =
     (let s1 = s\<lparr>isOpen := False, isFocused := False\<rparr>
      in if multipleSelect p \<and> workingSelected s \<noteq> JNull
         then s1\<lparr>displayedSelected := workingSelected s, workingSelected := JNull\<rparr>
         else s1)"

text \<open>\<open>handleKeyboardClose\<close>. Its \<open>blur()\<close> of the focused input runs \<open>handleBlur\<close> inside
  the handler; both read the working selection of the same render.\<close>

definition handleKeyboardClose :: "lookup_props \<Rightarrow> lookup_state \<Rightarrow> lookup_state" where
  "handleKeyboardClose p s =
     (let s1 = handleBlur p (s\<lparr>isOpen := False, focusedIndex := - 1\<rparr>)
      in if multipleSelect p \<and> workingSelected s \<noteq> JNull
         then s1\<lparr>displayedSelected := workingSelected s, workingSelected := JNull\<rparr>
         else s1)"

text \<open>\<open>handleInputBoxClick\<close>. For a combobox it only focuses the input, which is a call
  of \<open>handleFocus\<close> when the input did not have the focus.\<close>

definition handleInputBoxClick :: "lookup_props \<Rightarrow> lookup_state \<Rightarrow> lookup_state" where
  "handleInputBoxClick p s =
     (if disabled p then s
      else if lookupType p = Dropdown then
        (let s1 = s\<lparr>isOpen := \<not> isOpen s, isFocused := True, focusedIndex := - 1\<rparr>;
             s2 = (if multipleSelect p then s1\<lparr>workingSelected := displayedSelected s\<rparr> else s1)
         in if \<not> isCallback p \<and> inputValue s = [] then s2\<lparr>filteredItems := baseItems p\<rparr> else s2)
      else s)"

text \<open>The effect on the \<open>selected\<close> prop.\<close>

definition selectedChanged :: "jsvalue \<Rightarrow> lookup_state \<Rightarrow> lookup_state" where
  "selectedChanged sel s = s\<lparr>displayedSelected := sel\<rparr>"

section \<open>Keyboard navigation (useKeyboardNavigation)\<close>

datatype key = ArrowDown | ArrowUp | Enter | Escape | Tab | OtherKey

definition handleKeyDown :: "lookup_props \<Rightarrow> key \<Rightarrow> lookup_state \<Rightarrow> thrown + lookup_state" where
  "handleKeyDown p k s =
     (let itemCount = int (length (filteredItems s)) in
      if \<not> isOpen s then
        (if k = ArrowDown \<or> k = Enter then Inr (s\<lparr>isOpen := True, focusedIndex := 0\<rparr>)
         else Inr s)
      else
        (case k of
           ArrowDown \<Rightarrow>
             Inr (s\<lparr>focusedIndex :=
                      (if focusedIndex s < itemCount - 1 then focusedIndex s + 1
                       else focusedIndex s)\<rparr>)
         | ArrowUp \<Rightarrow>
             Inr (s\<lparr>focusedIndex :=
                      (if focusedIndex s > 0 then focusedIndex s - 1 else focusedIndex s)\<rparr>)
         | Enter \<Rightarrow>
             (if focusedIndex s \<ge> 0 \<and> focusedIndex s < itemCount
              then handleKeyboardSelect p (focusedIndex s) s
              else Inr s)
         | Escape \<Rightarrow> Inr (handleKeyboardClose p s)
         | Tab \<Rightarrow> Inr (handleKeyboardClose p s)
         | OtherKey \<Rightarrow> Inr s))"

section \<open>Placement of the dropdown\<close>

text \<open>The container's bounding box and the window's inner size, in pixels.\<close>

record geometry =
  rectTop :: real
  rectBottom :: real
  rectLeft :: real
  rectRight :: real
  rectWidth :: real
  innerHeight :: real
  innerWidth :: real

definition listHeight :: "lookup_props \<Rightarrow> lookup_state \<Rightarrow> real" where
  "listHeight p s =
     min (if filteredItems s \<noteq> [] then real (length (filteredItems s)) * rowHeight p else 0)
         (maxHeight p)"

text \<open>\<open>Math.min(listHeight || maxHeight, maxHeight)\<close>.\<close>

definition estimatedHeight :: "lookup_props \<Rightarrow> lookup_state \<Rightarrow> real" where
  "estimatedHeight p s =
     min (if listHeight p s = 0 then maxHeight p else listHeight p s) (maxHeight p)"

definition estimatedWidth :: "lookup_props \<Rightarrow> geometry \<Rightarrow> real" where
  "estimatedWidth p g =
     (case dropdownWidth p of
        Some WidthAuto \<Rightarrow> rectWidth g
      | Some (WidthPx w) \<Rightarrow> w
      | None \<Rightarrow> rectWidth g)"

definition chooseAutoPosition :: "lookup_props \<Rightarrow> lookup_state \<Rightarrow> geometry \<Rightarrow> dropdown_position" where
  "chooseAutoPosition p s g =
     (let availableBottom = innerHeight g - rectBottom g;
          availableTop = rectTop g;
          availableRight = innerWidth g - rectRight g;
          availableLeft = rectLeft g;
          availableFromTop = innerHeight g - rectTop g;
          canFitRight = (availableRight \<ge> estimatedWidth p g \<and> availableFromTop \<ge> estimatedHeight p s);
          canFitLeft = (availableLeft \<ge> estimatedWidth p g \<and> availableFromTop \<ge> estimatedHeight p s)
      in if availableBottom \<ge> estimatedHeight p s then Below
         else if canFitRight \<and> canFitLeft
              then (if availableLeft > availableRight then Left else Right)
         else if canFitRight then Right
         else if canFitLeft then Left
         else if availableTop \<ge> estimatedHeight p s then Above
         else Below)"

text \<open>The layout effect, run after a render with the container measured as \<open>g\<close>.\<close>

definition resolvePosition :: "lookup_props \<Rightarrow> geometry \<Rightarrow> lookup_state \<Rightarrow> lookup_state" where
  "resolvePosition p g s =
     (if \<not> isOpen s then s
      else s\<lparr>resolvedPosition :=
               (if dropdownPosition p = Auto then chooseAutoPosition p s g
                else dropdownPosition p)\<rparr>)"

section \<open>Example configurations\<close>

text \<open>A multi-select combobox over two strings, a single-select combobox over an async
  provider, and the state of a widget right after its input received the focus.\<close>

definition stringProps :: lookup_props where
  "stringProps =
     \<lparr> items = Static [JStr ''Alpha'', JStr ''Beta''], lookupType = Combobox,
       multipleSelect = True, itemKey = None, matchFields = None, rowHeight = 32,
       maxHeight = 300, dropdownPosition = Auto, dropdownWidth = None, disabled = False,
       debounceMs = None, minSearchLength = 0 \<rparr>"

definition asyncProps :: lookup_props where
  "asyncProps =
     \<lparr> items = Callback, lookupType = Combobox,
       multipleSelect = False, itemKey = Some ''id'', matchFields = None, rowHeight = 32,
       maxHeight = 300, dropdownPosition = Auto, dropdownWidth = None, disabled = False,
       debounceMs = None, minSearchLength = 0 \<rparr>"

definition openedState :: "lookup_props \<Rightarrow> jsvalue \<Rightarrow> lookup_state" where
  "openedState p sel = handleFocus p (initialState p sel)"

text \<open>The focus index a handler leaves behind.\<close>

definition focusAfter :: "thrown + lookup_state \<Rightarrow> thrown + int" where
  "focusAfter r = map_sum id focusedIndex r"

section \<open>Closing the dropdown\<close>

text \<open>The four ways of closing named by the specification, each with the handler it
  runs. Escape and Tab go through \<open>handleKeyDown\<close>.\<close>

datatype close_via = OutsideClick | InputBlur | EscapeKey | TabKey

definition closeVia :: "lookup_props \<Rightarrow> close_via \<Rightarrow> lookup_state \<Rightarrow> thrown + lookup_state" where
  "closeVia p via s =
     (case via of
        OutsideClick \<Rightarrow> Inr (handleClickOutside p s)
      | InputBlur \<Rightarrow> Inr (handleBlur p s)
      | EscapeKey \<Rightarrow> handleKeyDown p Escape s
      | TabKey \<Rightarrow> handleKeyDown p Tab s)"

section \<open>The placement policy in the specification's words\<close>

text \<open>The estimated height as the specification gives it (the smaller of candidate count
  times row height and the configured maximum), and the priority order below, right,
  left, above, below for an estimated height \<open>h\<close> and width \<open>w\<close>.\<close>

definition specEstimatedHeight :: "lookup_props \<Rightarrow> lookup_state \<Rightarrow> real" where
  "specEstimatedHeight p s = min (real (length (filteredItems s)) * rowHeight p) (maxHeight p)"

definition specPlacement :: "real \<Rightarrow> real \<Rightarrow> geometry \<Rightarrow> dropdown_position" where
  "specPlacement h w g =
     (let spaceBelow = innerHeight g - rectBottom g;
          spaceAbove = rectTop g;
          spaceRight = innerWidth g - rectRight g;
          spaceLeft = rectLeft g;
          spaceFromTop = innerHeight g - rectTop g;
          rightFits = (spaceRight \<ge> w \<and> spaceFromTop \<ge> h);
          leftFits = (spaceLeft \<ge> w \<and> spaceFromTop \<ge> h)
      in if spaceBelow \<ge> h then Below
         else if rightFits \<and> \<not> (leftFits \<and> spaceLeft > spaceRight) then Right
         else if leftFits then Left
         else if spaceAbove \<ge> h then Above
         else Below)"

text \<open>A trigger near the bottom right corner of an 800 by 600 window.\<close>

definition lowGeometry :: geometry where
  "lowGeometry =
     \<lparr> rectTop = 450, rectBottom = 480, rectLeft = 690, rectRight = 790, rectWidth = 100,
       innerHeight = 600, innerWidth = 800 \<rparr>"

section \<open>Async loading: an invariant of the refs and example traces\<close>

text \<open>Call identifiers handed out so far are below \<open>nextCall\<close>: no stale entry can be
  mistaken for a call issued later.\<close>

definition freshCalls :: "lookup_state \<Rightarrow> bool" where
  "freshCalls s =
     (list_all (\<lambda>c. c < nextCall s) (aborted s) \<and>
      list_all (\<lambda>cv. fst cv < nextCall s) (pending s) \<and>
      (case abortController s of Some c \<Rightarrow> c < nextCall s | None \<Rightarrow> True))"

text \<open>A provider result is accepted for the text \<open>a\<close>; the calls for \<open>ab\<close> and \<open>abc\<close>
  follow, the second superseding the first; then the superseded call rejects with an
  ordinary error.\<close>

definition sampleRecord :: jsvalue where
  "sampleRecord = JObj [(''id'', JNum 1), (''name'', JStr ''abc'')]"

definition beforeStaleRejection :: lookup_state where
  "beforeStaleRejection =
     handleInputChange asyncProps ''abc''
       (handleInputChange asyncProps ''ab''
          (settle asyncProps 0 (Fulfil (JArr [sampleRecord]))
             (handleInputChange asyncProps ''a'' (initialState asyncProps JUndefined))))"

definition afterStaleRejection :: lookup_state where
  "afterStaleRejection =
     settle asyncProps 1 (Reject (ErrorObj ''Error'' ''boom'')) beforeStaleRejection"

text \<open>A call issued for the emptied input, and one for the text \<open>abc\<close>.\<close>

definition emptyQueryCall :: lookup_state where
  "emptyQueryCall = handleInputChange asyncProps [] (initialState asyncProps JUndefined)"

definition typedCall :: lookup_state where
  "typedCall = handleInputChange asyncProps ''abc'' (initialState asyncProps JUndefined)"

section \<open>The filter contract in the specification's words\<close>









section \<open>Selection notifications: auxiliary notions\<close>

text \<open>A single-select variant of the string example, and a list without its element at
  index \<open>n\<close>.\<close>

definition singleProps :: lookup_props where
  "singleProps = stringProps\<lparr>multipleSelect := False\<rparr>"

definition removedAt :: "nat \<Rightarrow> 'a list \<Rightarrow> 'a list" where
  "removedAt n xs = take n xs @ drop (Suc n) xs"

section \<open>Toggling in the specification's words\<close>











section \<open>A record example\<close>




section \<open>Verified properties\<close>

lemmas ex_defs = stringProps_def asyncProps_def openedState_def initialState_def handleFocus_def
  isCallback_def baseItems_def

subsection \<open>Keyboard navigation\<close>

text \<open>C4, as stated, fails: with the dropdown open and no row focused (focus index \<open>-1\<close>),
  ArrowUp leaves the focus index at \<open>-1\<close>, where \<open>max(focusIndex - 1, 0)\<close> is \<open>0\<close>.\<close>

theorem C4_counterexample:
  "isOpen (openedState stringProps JUndefined) \<and>
   focusedIndex (openedState stringProps JUndefined) = - 1 \<and>
   focusAfter (handleKeyDown stringProps ArrowUp (openedState stringProps JUndefined)) = Inr (- 1) \<and>
   max (focusedIndex (openedState stringProps JUndefined) - 1) 0 = 0"
  by (simp add: ex_defs handleKeyDown_def focusAfter_def)

text \<open>C4 (amended): with the dropdown open, ArrowDown sets the focus index to
  \<open>min(focusIndex + 1, itemCount - 1)\<close> when it is at most \<open>itemCount - 1\<close> and leaves it
  unchanged otherwise; ArrowUp sets it to \<open>max(focusIndex - 1, 0)\<close> when it is at least \<open>0\<close>
  and leaves a negative focus index (\<open>-1\<close>, none) unchanged. Neither key wraps.\<close>

theorem C4_navigation:
  assumes "isOpen s"
  shows "focusAfter (handleKeyDown p ArrowDown s) =
           Inr (if focusedIndex s \<le> int (length (filteredItems s)) - 1
                then min (focusedIndex s + 1) (int (length (filteredItems s)) - 1)
                else focusedIndex s) \<and>
         focusAfter (handleKeyDown p ArrowUp s) =
           Inr (if 0 \<le> focusedIndex s then max (focusedIndex s - 1) 0 else focusedIndex s)"
  using assms by (simp add: handleKeyDown_def focusAfter_def Let_def min_def max_def)

theorem C4_navigation_witness:
  "isOpen (openedState stringProps JUndefined) \<and>
   focusAfter (handleKeyDown stringProps ArrowDown (openedState stringProps JUndefined)) = Inr 0 \<and>
   focusAfter (handleKeyDown stringProps ArrowUp (openedState stringProps JUndefined)) = Inr (- 1)"
proof -
  have o: "isOpen (openedState stringProps JUndefined)"
    by (simp add: ex_defs)
  have f: "focusedIndex (openedState stringProps JUndefined) = - 1"
    by (simp add: ex_defs)
  have n: "length (filteredItems (openedState stringProps JUndefined)) = 2"
    by (simp add: ex_defs)
  show ?thesis
    using C4_navigation [OF o, of stringProps] o by (simp add: f n)
qed

subsection \<open>Item shape\<close>

text \<open>C7, as stated, fails: for an async provider the widget's shape flag is not
  "string".\<close>

theorem C7_counterexample:
  "isCallback asyncProps \<and> \<not> isStringType asyncProps"
  by (simp add: asyncProps_def isCallback_def isStringType_def baseItems_def)

text \<open>C7 (amended): the item shape is a function of the \<open>items\<close> source alone, so it is
  fixed while the source is: it is "string" exactly when the source is a static collection
  whose first element is a string, and it is "record" for every async provider (and for
  an empty static collection).\<close>

theorem C7_item_shape:
  "(isStringType p \<longleftrightarrow> (\<exists>x xs. items p = Static (JStr x # xs))) \<and>
   (isCallback p \<longrightarrow> \<not> isStringType p) \<and>
   (items p = items p' \<longrightarrow> isStringType p = isStringType p')"
proof -
  have a: "isStringType p \<longleftrightarrow> (\<exists>x xs. items p = Static (JStr x # xs))"
  proof (cases "items p")
    case (Static ys)
    show ?thesis
    proof (cases ys)
      case Nil
      with Static show ?thesis by (simp add: isStringType_def baseItems_def)
    next
      case (Cons y ys')
      with Static show ?thesis by (cases y) (simp_all add: isStringType_def baseItems_def)
    qed
  next
    case Callback
    then show ?thesis by (simp add: isStringType_def baseItems_def)
  qed
  have b: "isCallback p \<longrightarrow> \<not> isStringType p"
    by (cases "items p") (simp_all add: isCallback_def isStringType_def baseItems_def)
  have c: "items p = items p' \<longrightarrow> isStringType p = isStringType p'"
    by (simp add: isStringType_def baseItems_def)
  from a b c show ?thesis by blast
qed

theorem C7_item_shape_witness:
  "isCallback asyncProps \<and> \<not> isStringType asyncProps \<and> isStringType stringProps"
  using C7_item_shape [of asyncProps asyncProps] C7_item_shape [of stringProps stringProps]
  by (simp add: asyncProps_def stringProps_def isCallback_def)

subsection \<open>Placement\<close>

text \<open>C8, as stated, fails: with an empty candidate set the specification's estimated
  height is \<open>0\<close>, so "below" would always fit; the code estimates the configured maximum
  height instead and here resolves to "above".\<close>

theorem C8_counterexample:
  "dropdownPosition asyncProps = Auto \<and>
   isOpen (openedState asyncProps JUndefined) \<and>
   resolvedPosition (resolvePosition asyncProps lowGeometry (openedState asyncProps JUndefined)) = Above \<and>
   specPlacement (specEstimatedHeight asyncProps (openedState asyncProps JUndefined))
     (estimatedWidth asyncProps lowGeometry) lowGeometry = Below"
  by (simp add: ex_defs resolvePosition_def chooseAutoPosition_def estimatedHeight_def
      listHeight_def estimatedWidth_def lowGeometry_def specPlacement_def specEstimatedHeight_def)

lemma listHeight_spec: "listHeight p s = specEstimatedHeight p s"
  by (simp add: listHeight_def specEstimatedHeight_def)

lemma estimatedHeight_spec:
  "estimatedHeight p s =
     (if specEstimatedHeight p s = 0 then maxHeight p else specEstimatedHeight p s)"
  by (simp add: estimatedHeight_def listHeight_spec) (simp add: specEstimatedHeight_def)

lemma chooseAutoPosition_spec:
  "chooseAutoPosition p s g = specPlacement (estimatedHeight p s) (estimatedWidth p g) g"
  by (auto simp add: chooseAutoPosition_def specPlacement_def Let_def)

text \<open>C8 (amended): for an open dropdown with placement "auto" the resolved placement
  follows the stated priority order (below, right, left with the strictly wider side
  winning when both fit, above, below as fallback), where the estimated height is
  \<open>min(count * rowHeight, maxHeight)\<close> when that is not zero and the configured maximum
  height when it is zero (an empty candidate set). A fixed placement is taken as it
  is.\<close>

theorem C8_placement:
  assumes "isOpen s"
  shows "resolvedPosition (resolvePosition p g s) =
           (if dropdownPosition p = Auto
            then specPlacement
                   (if specEstimatedHeight p s = 0 then maxHeight p else specEstimatedHeight p s)
                   (estimatedWidth p g) g
            else dropdownPosition p)"
  using assms
  by (simp add: resolvePosition_def chooseAutoPosition_spec estimatedHeight_spec)

theorem C8_placement_witness:
  "isOpen (openedState asyncProps JUndefined) \<and>
   resolvedPosition (resolvePosition asyncProps lowGeometry (openedState asyncProps JUndefined)) = Above"
proof -
  have o: "isOpen (openedState asyncProps JUndefined)"
    by (simp add: ex_defs)
  have h: "specEstimatedHeight asyncProps (openedState asyncProps JUndefined) = 0"
    by (simp add: ex_defs specEstimatedHeight_def)
  have a: "dropdownPosition asyncProps = Auto" "maxHeight asyncProps = 300"
    by (simp_all add: asyncProps_def)
  have sp: "specPlacement 300 (estimatedWidth asyncProps lowGeometry) lowGeometry = Above"
    by (simp add: specPlacement_def estimatedWidth_def asyncProps_def lowGeometry_def)
  show ?thesis
    using C8_placement [OF o, of asyncProps lowGeometry] o by (simp add: h a sp)
qed

subsection \<open>Closing commits the tentative selection\<close>

lemma handleKeyboardClose_eq:
  "handleKeyboardClose p s = (handleBlur p s)\<lparr>focusedIndex := - 1\<rparr>"
  by (simp add: handleKeyboardClose_def handleBlur_def Let_def)

text \<open>C1: in multi-select, closing the open dropdown by an outside click, a blur, Escape
  or Tab leaves the dropdown closed and the tentative selection none; the committed
  selection becomes the tentative selection when that was not none, and stays as it was
  when it was none.\<close>

theorem C1_close_commits:
  assumes "multipleSelect p" and "isOpen s"
  shows "\<exists>s'. closeVia p via s = Inr s' \<and> \<not> isOpen s' \<and>
              workingSelected s' = JNull \<and>
              displayedSelected s' =
                (if workingSelected s = JNull then displayedSelected s else workingSelected s)"
  using assms
  by (cases via)
     (simp_all add: closeVia_def handleClickOutside_def handleBlur_def handleKeyDown_def
        handleKeyboardClose_eq Let_def)

theorem C1_close_commits_witness:
  "multipleSelect stringProps \<and>
   isOpen ((openedState stringProps (JArr []))\<lparr>workingSelected := JArr [JStr ''Beta'']\<rparr>) \<and>
   (\<exists>s'. closeVia stringProps EscapeKey
            ((openedState stringProps (JArr []))\<lparr>workingSelected := JArr [JStr ''Beta'']\<rparr>) = Inr s' \<and>
         \<not> isOpen s' \<and> workingSelected s' = JNull \<and>
         displayedSelected s' = JArr [JStr ''Beta''])"
proof -
  have m: "multipleSelect stringProps"
    by (simp add: stringProps_def)
  have o: "isOpen ((openedState stringProps (JArr []))\<lparr>workingSelected := JArr [JStr ''Beta'']\<rparr>)"
    by (simp add: ex_defs)
  show ?thesis
    using C1_close_commits [OF m o, of EscapeKey] m o by simp
qed

subsection \<open>Async loading\<close>

declare show_nat.simps [simp del]

lemma someM_total:
  assumes "\<And>x. x \<in> set xs \<Longrightarrow> f x = Inr (g x)"
  shows "someM f xs = Inr (list_ex g xs)"
  using assms by (induction xs) auto

lemma filterM_total:
  assumes "\<And>x. x \<in> set xs \<Longrightarrow> f x = Inr (g x)"
  shows "filterM f xs = Inr (filter g xs)"
  using assms by (induction xs) auto

lemma getProp_total:
  assumes "x \<noteq> JNull" and "x \<noteq> JUndefined"
  shows "\<exists>v. getProp x k = Inr v"
  using assms by (cases x) simp_all

lemma Object_values_total:
  assumes "x \<noteq> JNull" and "x \<noteq> JUndefined"
  shows "\<exists>vs. Object_values x = Inr vs"
  using assms by (cases x) simp_all

lemma itemMatches_total:
  assumes "x \<noteq> JNull" and "x \<noteq> JUndefined"
  shows "\<exists>b. itemMatches mf q x = Inr b"
proof (cases "\<exists>f fs. mf = Some (f # fs)")
  case True
  then obtain f fs where mf: "mf = Some (f # fs)" by blast
  define h where "h = (\<lambda>field. case getProp x field of
                     Inl e \<Rightarrow> Inl e
                   | Inr v \<Rightarrow> Inr (str_includes (toLowerCase (toString v)) q))"
  have "h k = Inr (case getProp x k of Inr v \<Rightarrow> str_includes (toLowerCase (toString v)) q | Inl e \<Rightarrow> False)" for k
  proof -
    from getProp_total [OF assms] obtain v where "getProp x k = Inr v" by blast
    then show ?thesis by (simp add: h_def)
  qed
  then have "someM h (f # fs) = Inr (list_ex (\<lambda>k. case getProp x k of Inr v \<Rightarrow> str_includes (toLowerCase (toString v)) q | Inl e \<Rightarrow> False) (f # fs))"
    by (intro someM_total) simp
  then show ?thesis
    by (simp add: itemMatches_def mf h_def)
next
  case False
  then have "itemMatches mf q x =
      (case Object_values x of Inl e \<Rightarrow> Inl e
       | Inr vs \<Rightarrow> Inr (list_ex (\<lambda>v. str_includes (toLowerCase (toString v)) q) vs))"
    by (auto simp: itemMatches_def split: option.splits list.splits)
  then show ?thesis
    using Object_values_total [OF assms] by auto
qed

lemma filterItems_total:
  assumes "list_all (\<lambda>y. y \<noteq> JNull \<and> y \<noteq> JUndefined) rs"
  shows "\<exists>fs. filterItems ty st mf q rs = Inr fs"
proof -
  have "\<And>x. x \<in> set rs \<Longrightarrow>
          itemMatches mf (toLowerCase q) x = Inr (itemMatches mf (toLowerCase q) x = Inr True)"
  proof -
    fix x assume "x \<in> set rs"
    with assms have "x \<noteq> JNull" "x \<noteq> JUndefined" by (auto simp: list_all_iff)
    from itemMatches_total [OF this] obtain b where "itemMatches mf (toLowerCase q) x = Inr b"
      by blast
    then show "itemMatches mf (toLowerCase q) x = Inr (itemMatches mf (toLowerCase q) x = Inr True)"
      by simp
  qed
  then have "filterM (itemMatches mf (toLowerCase q)) rs =
      Inr (filter (\<lambda>x. itemMatches mf (toLowerCase q) x = Inr True) rs)"
    by (rule filterM_total)
  then show ?thesis
    by (simp add: filterItems_def Let_def)
qed

lemma filterItems_Nil: "filterItems ty st mf q [] = Inr []"
  by (simp add: filterItems_def Let_def)

lemma map_of_filter_other:
  "k \<noteq> c \<Longrightarrow> map_of (filter (\<lambda>cv. fst cv \<noteq> c) xs) k = map_of xs k"
  by (induction xs) auto

lemma pending_catchError: "pending (catchError e s) = pending s"
  by (simp add: catchError_def split: thrown.splits)

lemma pending_acceptResults: "acceptResults p v r s = Inr s' \<Longrightarrow> pending s' = pending s"
  by (auto simp: acceptResults_def split: jsvalue.splits sum.splits if_splits)

lemma settle_in_flight:
  assumes "map_of (pending s) c = Some v"
  shows "\<not> isLoading (settle p c out s)"
    and "pending (settle p c out s) = filter (\<lambda>cv. fst cv \<noteq> c) (pending s)"
  using assms
  by (auto simp: settle_def Let_def pending_catchError dest: pending_acceptResults
        split: outcome.splits sum.splits)

lemma map_of_fresh:
  "list_all (\<lambda>cv. fst cv < (n::nat)) xs \<Longrightarrow> n \<le> k \<Longrightarrow> map_of xs k = None"
  by (induction xs) auto

text \<open>Freshness of call identifiers holds initially and is kept by every handler that
  touches the refs.\<close>

lemma freshCalls_initialState: "freshCalls (initialState p sel)"
  by (simp add: freshCalls_def initialState_def)

lemma freshCalls_executeCallback:
  assumes "freshCalls s"
  shows "freshCalls (executeCallback p v s)"
proof -
  have mono: "\<And>P xs (n::nat). list_all (\<lambda>c. P c < n) xs \<Longrightarrow> list_all (\<lambda>c. P c < Suc n) xs"
    by (auto simp: list_all_iff less_SucI)
  from assms show ?thesis
    by (auto simp: freshCalls_def executeCallback_def Let_def list_all_iff less_SucI
        split: option.splits)
qed

lemma refs_catchError:
  "aborted (catchError e s) = aborted s" "nextCall (catchError e s) = nextCall s"
  "abortController (catchError e s) = abortController s"
  by (simp_all add: catchError_def split: thrown.splits)

lemma refs_acceptResults:
  assumes "acceptResults p v r s = Inr s'"
  shows "aborted s' = aborted s" "nextCall s' = nextCall s"
    "abortController s' = abortController s"
  using assms
  by (auto simp: acceptResults_def split: jsvalue.splits sum.splits if_splits)

lemma freshCalls_settle:
  assumes "freshCalls s"
  shows "freshCalls (settle p c out s)"
proof (cases "map_of (pending s) c")
  case None
  with assms show ?thesis by (simp add: settle_def)
next
  case (Some v)
  let ?s0 = "s\<lparr>pending := filter (\<lambda>cv. fst cv \<noteq> c) (pending s)\<rparr>"
  have f0: "freshCalls ?s0"
    using assms by (auto simp: freshCalls_def list_all_iff split: option.splits)
  have keep: "freshCalls t"
    if "aborted t = aborted ?s0" "nextCall t = nextCall ?s0"
      "abortController t = abortController ?s0" "pending t = pending ?s0" for t
    using f0 that by (simp add: freshCalls_def split: option.splits)
  have "freshCalls (case out of
                      Fulfil results \<Rightarrow>
                        if c \<in> set (aborted ?s0) then ?s0
                        else (case acceptResults p v results ?s0 of
                                Inl e \<Rightarrow> catchError e ?s0
                              | Inr s' \<Rightarrow> s')
                    | Reject e \<Rightarrow> catchError e ?s0)"
    using f0
    by (auto intro!: keep simp: refs_catchError pending_catchError
        dest: refs_acceptResults pending_acceptResults split: outcome.splits sum.splits)
  then show ?thesis
    by (simp add: settle_def Some Let_def freshCalls_def split: option.splits)
qed

lemma freshCalls_cong:
  assumes "aborted t = aborted s" and "nextCall t = nextCall s"
    and "abortController t = abortController s" and "pending t = pending s"
  shows "freshCalls t = freshCalls s"
  using assms by (simp add: freshCalls_def cong: option.case_cong)

lemma freshCalls_handleInputChange:
  assumes "freshCalls s"
  shows "freshCalls (handleInputChange p v s)"
proof -
  let ?s1 = "s\<lparr>inputValue := v, isOpen := True, focusedIndex := - 1, error := None\<rparr>"
  have f1: "freshCalls ?s1"
    using assms by (simp add: freshCalls_cong [of ?s1 s])
  have f2: "freshCalls (?s1\<lparr>debounceTimeout := None\<rparr>)"
    using assms by (simp add: freshCalls_cong [of "?s1\<lparr>debounceTimeout := None\<rparr>" s])
  have f3: "freshCalls (?s1\<lparr>debounceTimeout := Some v\<rparr>)"
    using assms by (simp add: freshCalls_cong [of "?s1\<lparr>debounceTimeout := Some v\<rparr>" s])
  have f4: "freshCalls (?s1\<lparr>filteredItems := fs\<rparr>)" for fs
    using assms by (simp add: freshCalls_cong [of "?s1\<lparr>filteredItems := fs\<rparr>" s])
  show ?thesis
  proof (cases "lookupType p = Dropdown")
    case True
    with f1 show ?thesis by (simp add: handleInputChange_def Let_def)
  next
    case False
    show ?thesis
    proof (cases "isCallback p")
      case True
      show ?thesis
        using False True f3 freshCalls_executeCallback [OF f2, of p v]
        by (simp add: handleInputChange_def Let_def)
    next
      case nc: False
      show ?thesis
        using False nc f1 f4
        by (simp add: handleInputChange_def Let_def split: sum.splits)
    qed
  qed
qed

lemma freshCalls_timerFires:
  assumes "freshCalls s"
  shows "freshCalls (timerFires p s)"
proof (cases "debounceTimeout s")
  case None
  with assms show ?thesis by (simp add: timerFires_def)
next
  case (Some v)
  have "freshCalls (s\<lparr>debounceTimeout := None\<rparr>)"
    using assms by (simp add: freshCalls_def split: option.splits)
  from freshCalls_executeCallback [OF this] show ?thesis
    by (simp add: timerFires_def Some)
qed

text \<open>C10: when call A is issued and then superseded by call B, both still in flight, the
  widget is loading; whatever A settles with, its completion handler sets the loading flag
  to false although B is still in flight (and not aborted).\<close>

theorem C10_superseded_call_ends_loading:
  assumes "freshCalls s"
    and "minSearchLength p \<le> int (length a)"
    and "minSearchLength p \<le> int (length b)"
  shows "isLoading (executeCallback p b (executeCallback p a s)) \<and>
         map_of (pending (executeCallback p b (executeCallback p a s))) (nextCall s) = Some a \<and>
         map_of (pending (executeCallback p b (executeCallback p a s))) (Suc (nextCall s)) = Some b \<and>
         nextCall s \<in> set (aborted (executeCallback p b (executeCallback p a s))) \<and>
         Suc (nextCall s) \<notin> set (aborted (executeCallback p b (executeCallback p a s))) \<and>
         \<not> isLoading (settle p (nextCall s) out (executeCallback p b (executeCallback p a s))) \<and>
         map_of (pending (settle p (nextCall s) out (executeCallback p b (executeCallback p a s))))
           (Suc (nextCall s)) = Some b"
proof -
  define sB where "sB = executeCallback p b (executeCallback p a s)"
  from assms(1) have fr: "list_all (\<lambda>c. c < nextCall s) (aborted s)"
    "list_all (\<lambda>cv. fst cv < nextCall s) (pending s)"
    "case abortController s of Some c \<Rightarrow> c < nextCall s | None \<Rightarrow> True"
    by (simp_all add: freshCalls_def)
  have none: "map_of (pending s) (nextCall s) = None" "map_of (pending s) (Suc (nextCall s)) = None"
    using fr(2) by (simp_all add: map_of_fresh)
  have pend: "pending sB = pending s @ [(nextCall s, a), (Suc (nextCall s), b)]"
    using assms(2,3) by (simp add: sB_def executeCallback_def Let_def split: option.splits)
  have ab: "\<And>c. c \<in> set (aborted sB) \<Longrightarrow> c \<le> nextCall s" "nextCall s \<in> set (aborted sB)"
    using assms(2,3) fr(1,3)
    by (auto simp add: sB_def executeCallback_def Let_def list_all_iff less_imp_le
          split: option.splits)
  have ld: "isLoading sB"
    using assms(2,3) by (simp add: sB_def executeCallback_def Let_def split: option.splits)
  have mA: "map_of (pending sB) (nextCall s) = Some a"
    by (simp add: pend map_add_def none)
  have mB: "map_of (pending sB) (Suc (nextCall s)) = Some b"
    by (simp add: pend map_add_def none)
  have nB: "Suc (nextCall s) \<notin> set (aborted sB)"
    using ab(1) [of "Suc (nextCall s)"] by auto
  have "map_of (pending (settle p (nextCall s) out sB)) (Suc (nextCall s)) = Some b"
    by (simp add: settle_in_flight(2) [OF mA] map_of_filter_other mB)
  with ld mA mB ab(2) nB settle_in_flight(1) [OF mA, of p out]
  show ?thesis unfolding sB_def by blast
qed

theorem C10_superseded_call_ends_loading_witness:
  "isLoading (executeCallback asyncProps ''ab'' (executeCallback asyncProps ''a'' (initialState asyncProps JUndefined))) \<and>
   \<not> isLoading (settle asyncProps 0 (Fulfil (JArr []))
       (executeCallback asyncProps ''ab'' (executeCallback asyncProps ''a'' (initialState asyncProps JUndefined)))) \<and>
   map_of (pending (settle asyncProps 0 (Fulfil (JArr []))
       (executeCallback asyncProps ''ab'' (executeCallback asyncProps ''a'' (initialState asyncProps JUndefined))))) 1
     = Some ''ab''"
proof -
  have f: "freshCalls (initialState asyncProps JUndefined)"
    by (simp add: freshCalls_def initialState_def)
  have m: "minSearchLength asyncProps \<le> int (length ''a'')" "minSearchLength asyncProps \<le> int (length ''ab'')"
    by (simp_all add: asyncProps_def)
  have n: "nextCall (initialState asyncProps JUndefined) = 0"
    by (simp add: initialState_def)
  show ?thesis
    using C10_superseded_call_ends_loading [OF f m, of "Fulfil (JArr [])"] by (simp add: n)
qed


text \<open>C2 does not hold of the code for rejections. In the example trace the call for \<open>ab\<close>
  (call 1) has been aborted by the call for \<open>abc\<close> (call 2); when call 1 then rejects with
  an ordinary error, the error is displayed and the candidate set, which held an accepted
  result, is cleared.\<close>

theorem C2_stale_rejection_surfaces:
  "1 \<in> set (aborted beforeStaleRejection) \<and>
   map_of (pending beforeStaleRejection) 1 = Some ''ab'' \<and>
   abortController beforeStaleRejection = Some 2 \<and>
   filteredItems beforeStaleRejection = [sampleRecord] \<and>
   error beforeStaleRejection = None \<and>
   error afterStaleRejection = Some ''boom'' \<and>
   filteredItems afterStaleRejection = []"
  by (simp add: afterStaleRejection_def beforeStaleRejection_def sampleRecord_def asyncProps_def
      initialState_def handleInputChange_def executeCallback_def settle_def acceptResults_def
      catchError_def filterItems_def itemMatches_def isCallback_def isStringType_def
      baseItems_def toLowerCase_def lowerChar_def show_int_def digit_def Let_def)

text \<open>Starting a call does abort the controller of the previous one, and the fulfilment
  of a superseded call is discarded.\<close>

lemma executeCallback_aborts_previous:
  assumes "abortController s = Some c"
  shows "c \<in> set (aborted (executeCallback p v s))"
  using assms by (simp add: executeCallback_def Let_def)

lemma superseded_fulfilment_discarded:
  assumes "map_of (pending s) c = Some v" and "c \<in> set (aborted s)"
  shows "filteredItems (settle p c (Fulfil r) s) = filteredItems s \<and>
         error (settle p c (Fulfil r) s) = error s \<and>
         focusedIndex (settle p c (Fulfil r) s) = focusedIndex s"
  using assms by (simp add: settle_def Let_def)

text \<open>C5, as stated, fails: a resolved array whose first element is a string is accepted
  although a later element is a number; no error is shown and both elements become
  candidates.\<close>

theorem C5_counterexample:
  "map_of (pending emptyQueryCall) 0 = Some [] \<and> 0 \<notin> set (aborted emptyQueryCall) \<and>
   error (settle asyncProps 0 (Fulfil (JArr [JStr ''x'', JNum 5])) emptyQueryCall) = None \<and>
   filteredItems (settle asyncProps 0 (Fulfil (JArr [JStr ''x'', JNum 5])) emptyQueryCall)
     = [JStr ''x'', JNum 5] \<and>
   \<not> list_all (\<lambda>x. isString x \<or> isObject x) [JStr ''x'', JNum 5]"
  by (simp add: emptyQueryCall_def asyncProps_def
      initialState_def handleInputChange_def executeCallback_def settle_def acceptResults_def
      catchError_def filterItems_def isCallback_def isStringType_def
      baseItems_def Let_def)

text \<open>C5 (amended): for a call in flight that was not superseded, a resolved value that is
  not an array fails with the message that an array is required, and a non-empty array
  whose first element is neither a string nor a non-null object fails with the message that
  items must be strings or objects; in both cases the candidate set is cleared and loading
  ends. The empty array is accepted, and so is a non-empty array whose first element is a
  string or a non-null object (the other elements are not validated; when none of them is
  \<open>null\<close> or \<open>undefined\<close> the filtered result becomes the candidate set, the error display is
  left as it was and the first row is focused).\<close>

theorem C5_validation:
  assumes "map_of (pending s) c = Some v" and "c \<notin> set (aborted s)"
  shows "(\<not> isArray r \<longrightarrow>
            error (settle p c (Fulfil r) s) = Some ''Async callback must return an array of items'' \<and>
            filteredItems (settle p c (Fulfil r) s) = [] \<and>
            \<not> isLoading (settle p c (Fulfil r) s)) \<and>
         (\<forall>x xs. r = JArr (x # xs) \<and> \<not> isString x \<and> \<not> isObject x \<longrightarrow>
            error (settle p c (Fulfil r) s) = Some ''Items must be strings or objects'' \<and>
            filteredItems (settle p c (Fulfil r) s) = [] \<and>
            \<not> isLoading (settle p c (Fulfil r) s)) \<and>
         (r = JArr [] \<longrightarrow>
            error (settle p c (Fulfil r) s) = error s \<and>
            filteredItems (settle p c (Fulfil r) s) = [] \<and>
            \<not> isLoading (settle p c (Fulfil r) s)) \<and>
         (\<forall>x xs. r = JArr (x # xs) \<and> (isString x \<or> isObject x) \<and>
                 list_all (\<lambda>y. y \<noteq> JNull \<and> y \<noteq> JUndefined) xs \<longrightarrow>
            error (settle p c (Fulfil r) s) = error s \<and>
            filterItems (lookupType p) (isStringType p) (matchFields p) v (x # xs)
              = Inr (filteredItems (settle p c (Fulfil r) s)) \<and>
            focusedIndex (settle p c (Fulfil r) s) = 0 \<and>
            \<not> isLoading (settle p c (Fulfil r) s))"
proof -
  have a: "\<not> isArray r \<Longrightarrow>
      acceptResults p v r s0 = Inl (ErrorObj ''Error'' ''Async callback must return an array of items'')"
    for s0
    by (cases r) (simp_all add: acceptResults_def)
  have b: "r = JArr (x # xs) \<Longrightarrow> \<not> isString x \<Longrightarrow> \<not> isObject x \<Longrightarrow>
      acceptResults p v r s0 = Inl (ErrorObj ''Error'' ''Items must be strings or objects'')"
    for x xs s0
    by (simp add: acceptResults_def)
  have c: "r = JArr [] \<Longrightarrow> acceptResults p v r s0 = Inr (s0\<lparr>filteredItems := []\<rparr>)" for s0
    by (simp add: acceptResults_def filterItems_Nil)
  have d: "\<exists>fs. filterItems (lookupType p) (isStringType p) (matchFields p) v (x # xs) = Inr fs \<and>
               acceptResults p v r s0 = Inr (s0\<lparr>filteredItems := fs, focusedIndex := 0\<rparr>)"
    if "r = JArr (x # xs)" "isString x \<or> isObject x"
      "list_all (\<lambda>y. y \<noteq> JNull \<and> y \<noteq> JUndefined) xs" for x xs s0
  proof -
    from that(2) have "x \<noteq> JNull" "x \<noteq> JUndefined" by auto
    with that(3) have "list_all (\<lambda>y. y \<noteq> JNull \<and> y \<noteq> JUndefined) (x # xs)" by simp
    from filterItems_total [OF this]
    obtain fs where "filterItems (lookupType p) (isStringType p) (matchFields p) v (x # xs) = Inr fs"
      by blast
    with that(1,2) show ?thesis by (auto simp: acceptResults_def)
  qed
  show ?thesis
  proof (intro conjI allI impI)
    assume "\<not> isArray r"
    from a [OF this] assms
    show "error (settle p c (Fulfil r) s) = Some ''Async callback must return an array of items''"
      "filteredItems (settle p c (Fulfil r) s) = []"
      "\<not> isLoading (settle p c (Fulfil r) s)"
      by (simp_all add: settle_def Let_def catchError_def)
  next
    fix x xs assume "r = JArr (x # xs) \<and> \<not> isString x \<and> \<not> isObject x"
    then have "\<And>s0. acceptResults p v r s0 = Inl (ErrorObj ''Error'' ''Items must be strings or objects'')"
      using b by blast
    with assms
    show "error (settle p c (Fulfil r) s) = Some ''Items must be strings or objects''"
      "filteredItems (settle p c (Fulfil r) s) = []"
      "\<not> isLoading (settle p c (Fulfil r) s)"
      by (simp_all add: settle_def Let_def catchError_def)
  next
    assume "r = JArr []"
    from c [OF this] assms
    show "error (settle p c (Fulfil r) s) = error s"
      "filteredItems (settle p c (Fulfil r) s) = []"
      "\<not> isLoading (settle p c (Fulfil r) s)"
      by (simp_all add: settle_def Let_def)
  next
    fix x xs
    assume h: "r = JArr (x # xs) \<and> (isString x \<or> isObject x) \<and>
                 list_all (\<lambda>y. y \<noteq> JNull \<and> y \<noteq> JUndefined) xs"
    define s0 where "s0 = s\<lparr>pending := filter (\<lambda>cv. fst cv \<noteq> c) (pending s)\<rparr>"
    from d [of x xs s0] h obtain fs where
      fs: "filterItems (lookupType p) (isStringType p) (matchFields p) v (x # xs) = Inr fs"
        "acceptResults p v r s0 = Inr (s0\<lparr>filteredItems := fs, focusedIndex := 0\<rparr>)"
      by blast
    have st: "settle p c (Fulfil r) s = s0\<lparr>filteredItems := fs, focusedIndex := 0, isLoading := False\<rparr>"
      using assms fs(2) by (simp add: settle_def Let_def s0_def)
    show "error (settle p c (Fulfil r) s) = error s"
      "filterItems (lookupType p) (isStringType p) (matchFields p) v (x # xs)
              = Inr (filteredItems (settle p c (Fulfil r) s))"
      "focusedIndex (settle p c (Fulfil r) s) = 0"
      "\<not> isLoading (settle p c (Fulfil r) s)"
      by (simp_all add: st fs(1) s0_def)
  qed
qed

theorem C5_validation_witness:
  "map_of (pending typedCall) 0 = Some ''abc'' \<and> 0 \<notin> set (aborted typedCall) \<and>
   error (settle asyncProps 0 (Fulfil (JStr ''not-an-array'')) typedCall)
     = Some ''Async callback must return an array of items'' \<and>
   filteredItems (settle asyncProps 0 (Fulfil (JStr ''not-an-array'')) typedCall) = [] \<and>
   error (settle asyncProps 0 (Fulfil (JArr [JNum 5])) typedCall)
     = Some ''Items must be strings or objects'' \<and>
   error (settle asyncProps 0 (Fulfil (JArr [])) typedCall) = None \<and>
   error (settle asyncProps 0 (Fulfil (JArr [sampleRecord])) typedCall) = None \<and>
   focusedIndex (settle asyncProps 0 (Fulfil (JArr [sampleRecord])) typedCall) = 0"
proof -
  have m: "map_of (pending typedCall) 0 = Some ''abc''"
    by (simp add: typedCall_def asyncProps_def initialState_def handleInputChange_def
        executeCallback_def isCallback_def Let_def)
  have n: "0 \<notin> set (aborted typedCall)"
    by (simp add: typedCall_def asyncProps_def initialState_def handleInputChange_def
        executeCallback_def isCallback_def Let_def)
  have e: "error typedCall = None"
    by (simp add: typedCall_def asyncProps_def initialState_def handleInputChange_def
        executeCallback_def isCallback_def Let_def)
  show ?thesis
    using C5_validation [OF m n, of "JStr ''not-an-array''" asyncProps]
      C5_validation [OF m n, of "JArr [JNum 5]" asyncProps]
      C5_validation [OF m n, of "JArr []" asyncProps]
      C5_validation [OF m n, of "JArr [sampleRecord]" asyncProps]
      m n
    by (simp add: e sampleRecord_def)
qed

subsection \<open>Filtering\<close>












subsection \<open>Selection notifications\<close>

lemma bindE_simps [simp]: "bindE (Inr a) f = f a" "bindE (Inl e) f = Inl e"
  by (simp_all add: bindE_def)

lemma bindE_Inr_iff: "bindE m f = Inr b \<longleftrightarrow> (\<exists>a. m = Inr a \<and> f a = Inr b)"
  by (cases m) simp_all

lemma rowHandleClick_multi_array:
  assumes "rowHandleClick True key its sel i = Inr v"
  shows "\<exists>xs. v = JArr xs"
  using assms by (auto simp: rowHandleClick_def bindE_Inr_iff split: if_splits)

lemma rowHandleClick_single_item:
  assumes "rowHandleClick False key its sel i = Inr v"
    and "isStringList its \<or> \<not> selectedIsString sel"
  shows "v = its ! i"
  using assms by (auto simp: rowHandleClick_def rowItemValue_def bindE_Inr_iff split: if_splits)

lemma onSelectCalls_handleSelectItem:
  "onSelectCalls (handleSelectItem p v s) = onSelectCalls s @ [v]"
  by (simp add: handleSelectItem_def)

lemma rowClick_multi_calls:
  assumes "multipleSelect p" and "i < length (filteredItems s)" and "rowClick p i s = Inr s'"
  shows "\<exists>xs. onSelectCalls s' = onSelectCalls s @ [JArr xs]"
proof -
  from assms(2,3) obtain v where
    v: "(if isStringType p
         then rowHandleClick (multipleSelect p) None (filteredItems s)
                (getStringListSelected p s) i
         else rowHandleClick (multipleSelect p) (itemKey p) (filteredItems s)
                (getObjectListSelected p s) i) = Inr v"
    and s': "s' = handleSelectItem p v s"
    by (auto simp: rowClick_def bindE_Inr_iff)
  from v assms(1) obtain xs where "v = JArr xs"
    by (auto dest: rowHandleClick_multi_array split: if_splits)
  with s' show ?thesis by (simp add: onSelectCalls_handleSelectItem)
qed

lemma rowClick_single_calls:
  assumes "\<not> multipleSelect p" and "i < length (filteredItems s)" and "rowClick p i s = Inr s'"
    and "isStringList (filteredItems s) \<or>
         (\<not> isStringType p \<and> \<not> selectedIsString (getObjectListSelected p s))"
  shows "onSelectCalls s' = onSelectCalls s @ [filteredItems s ! i]"
proof -
  from assms(2,3) obtain v where
    v: "(if isStringType p
         then rowHandleClick (multipleSelect p) None (filteredItems s)
                (getStringListSelected p s) i
         else rowHandleClick (multipleSelect p) (itemKey p) (filteredItems s)
                (getObjectListSelected p s) i) = Inr v"
    and s': "s' = handleSelectItem p v s"
    by (auto simp: rowClick_def bindE_Inr_iff)
  from v assms(1,4) have "v = filteredItems s ! i"
    by (auto dest: rowHandleClick_single_item split: if_splits)
  with s' show ?thesis by (simp add: onSelectCalls_handleSelectItem)
qed

lemma handleKeyboardSelect_multi_calls:
  assumes "multipleSelect p" and "0 \<le> k" and "k < int (length (filteredItems s))"
    and "handleKeyboardSelect p k s = Inr s'"
  shows "\<exists>xs. onSelectCalls s' = onSelectCalls s @ [JArr xs]"
  using assms
  by (auto simp: handleKeyboardSelect_def Let_def bindE_Inr_iff onSelectCalls_handleSelectItem)

lemma handleKeyboardSelect_single:
  assumes "\<not> multipleSelect p" and "0 \<le> k" and "k < int (length (filteredItems s))"
  shows "handleKeyboardSelect p k s = Inr (handleSelectItem p (filteredItems s ! nat k) s)"
  using assms by (simp add: handleKeyboardSelect_def Let_def)

lemma enumerate_removedAt:
  "map snd (filter (\<lambda>iv. fst iv \<noteq> n + m) (enumerate m xs)) = removedAt n xs"
proof (induction xs arbitrary: n m)
  case Nil
  then show ?case by (simp add: removedAt_def)
next
  case (Cons x xs)
  show ?case
  proof (cases n)
    case 0
    have "filter (\<lambda>iv. fst iv \<noteq> m) (enumerate (Suc m) xs) = enumerate (Suc m) xs"
      by (rule filter_True) (auto simp: in_set_enumerate_eq)
    with 0 show ?thesis by (simp add: removedAt_def)
  next
    case (Suc n')
    with Cons.IH [of n' "Suc m"] show ?thesis by (simp add: removedAt_def)
  qed
qed

lemma handleRemoveSelected_calls:
  assumes "multipleSelect p" and "selectedArray s \<noteq> []"
  shows "onSelectCalls (handleRemoveSelected p n s) =
           onSelectCalls s @
             [if length (removedAt n (selectedArray s)) = 1
              then hd (removedAt n (selectedArray s))
              else JArr (removedAt n (selectedArray s))]"
  using assms enumerate_removedAt [of n 0 "selectedArray s"]
  by (simp add: handleRemoveSelected_def Let_def)

text \<open>C6, as stated, fails: in multi-select, removing the second of two pills calls
  \<open>onSelect\<close> with the one remaining item itself, not with an array.\<close>

theorem C6_counterexample:
  "multipleSelect stringProps \<and>
   onSelectCalls (handleRemoveSelected stringProps 1
                    (initialState stringProps (JArr [JStr ''Alpha'', JStr ''Beta''])))
     = [JStr ''Alpha''] \<and>
   \<not> isArray (JStr ''Alpha'')"
  by (simp add: stringProps_def initialState_def handleRemoveSelected_def selectedArray_def
      toArray_def enumerate_eq_zip upt_rec Let_def)

text \<open>C6 (amended): in multi-select mode a row toggle (pointer or keyboard) passes an array
  to \<open>onSelect\<close> and clear-all passes the empty array; a pill removal passes the array of
  the remaining items, except that exactly one remaining item is passed as a plain item.
  In single-select mode a keyboard selection passes the chosen candidate itself, and so
  does a row click whenever the rendered list is a string list or the selection handed to
  it is not a string.\<close>

theorem C6_onSelect_values:
  "(multipleSelect p \<and> i < length (filteredItems s) \<and> rowClick p i s = Inr s' \<longrightarrow>
      (\<exists>xs. onSelectCalls s' = onSelectCalls s @ [JArr xs])) \<and>
   (multipleSelect p \<and> 0 \<le> k \<and> k < int (length (filteredItems s)) \<and>
    handleKeyboardSelect p k s = Inr s' \<longrightarrow>
      (\<exists>xs. onSelectCalls s' = onSelectCalls s @ [JArr xs])) \<and>
   (multipleSelect p \<longrightarrow> onSelectCalls (handleClearAll p s) = onSelectCalls s @ [JArr []]) \<and>
   (multipleSelect p \<and> selectedArray s \<noteq> [] \<longrightarrow>
      onSelectCalls (handleRemoveSelected p n s) =
        onSelectCalls s @
          [if length (removedAt n (selectedArray s)) = 1
           then hd (removedAt n (selectedArray s))
           else JArr (removedAt n (selectedArray s))]) \<and>
   (\<not> multipleSelect p \<and> 0 \<le> k \<and> k < int (length (filteredItems s)) \<and>
    handleKeyboardSelect p k s = Inr s' \<longrightarrow>
      onSelectCalls s' = onSelectCalls s @ [filteredItems s ! nat k]) \<and>
   (\<not> multipleSelect p \<and> i < length (filteredItems s) \<and> rowClick p i s = Inr s' \<and>
    (isStringList (filteredItems s) \<or>
     (\<not> isStringType p \<and> \<not> selectedIsString (getObjectListSelected p s))) \<longrightarrow>
      onSelectCalls s' = onSelectCalls s @ [filteredItems s ! i])"
proof (intro conjI impI)
  assume "multipleSelect p \<and> i < length (filteredItems s) \<and> rowClick p i s = Inr s'"
  then show "\<exists>xs. onSelectCalls s' = onSelectCalls s @ [JArr xs]"
    using rowClick_multi_calls by blast
next
  assume "multipleSelect p \<and> 0 \<le> k \<and> k < int (length (filteredItems s)) \<and>
    handleKeyboardSelect p k s = Inr s'"
  then show "\<exists>xs. onSelectCalls s' = onSelectCalls s @ [JArr xs]"
    using handleKeyboardSelect_multi_calls by blast
next
  assume "multipleSelect p"
  then show "onSelectCalls (handleClearAll p s) = onSelectCalls s @ [JArr []]"
    by (simp add: handleClearAll_def)
next
  assume "multipleSelect p \<and> selectedArray s \<noteq> []"
  then show "onSelectCalls (handleRemoveSelected p n s) =
        onSelectCalls s @
          [if length (removedAt n (selectedArray s)) = 1
           then hd (removedAt n (selectedArray s))
           else JArr (removedAt n (selectedArray s))]"
    by (simp add: handleRemoveSelected_calls)
next
  assume "\<not> multipleSelect p \<and> 0 \<le> k \<and> k < int (length (filteredItems s)) \<and>
    handleKeyboardSelect p k s = Inr s'"
  then show "onSelectCalls s' = onSelectCalls s @ [filteredItems s ! nat k]"
    using handleKeyboardSelect_single [of p k s]
    by (auto simp: onSelectCalls_handleSelectItem)
next
  assume "\<not> multipleSelect p \<and> i < length (filteredItems s) \<and> rowClick p i s = Inr s' \<and>
    (isStringList (filteredItems s) \<or>
     (\<not> isStringType p \<and> \<not> selectedIsString (getObjectListSelected p s)))"
  then show "onSelectCalls s' = onSelectCalls s @ [filteredItems s ! i]"
    using rowClick_single_calls by blast
qed


theorem C6_onSelect_values_witness:
  "rowClick stringProps 1 (openedState stringProps (JArr []))
     = Inr (handleSelectItem stringProps (JArr [JStr ''Beta'']) (openedState stringProps (JArr []))) \<and>
   onSelectCalls (handleSelectItem stringProps (JArr [JStr ''Beta'']) (openedState stringProps (JArr [])))
     = [JArr [JStr ''Beta'']] \<and>
   onSelectCalls (handleClearAll stringProps (openedState stringProps (JArr []))) = [JArr []] \<and>
   onSelectCalls (handleRemoveSelected stringProps 1
                    (initialState stringProps (JArr [JStr ''Alpha'', JStr ''Beta''])))
     = [JStr ''Alpha''] \<and>
   rowClick singleProps 0 (openedState singleProps JUndefined)
     = Inr (handleSelectItem singleProps (JStr ''Alpha'') (openedState singleProps JUndefined)) \<and>
   onSelectCalls (handleSelectItem singleProps (JStr ''Alpha'') (openedState singleProps JUndefined))
     = [JStr ''Alpha'']"
proof -
  let ?s = "openedState stringProps (JArr [])"
  let ?s' = "handleSelectItem stringProps (JArr [JStr ''Beta'']) ?s"
  let ?r = "initialState stringProps (JArr [JStr ''Alpha'', JStr ''Beta''])"
  let ?t = "openedState singleProps JUndefined"
  let ?t' = "handleSelectItem singleProps (JStr ''Alpha'') ?t"
  have m: "multipleSelect stringProps" "\<not> multipleSelect singleProps"
    by (simp_all add: stringProps_def singleProps_def)
  have fs: "filteredItems ?s = [JStr ''Alpha'', JStr ''Beta'']"
    "filteredItems ?t = [JStr ''Alpha'', JStr ''Beta'']" "onSelectCalls ?s = []"
    "onSelectCalls ?t = []" "onSelectCalls ?r = []"
    by (simp_all add: ex_defs singleProps_def)
  have st: "isStringType stringProps" "isStringType singleProps"
    by (simp_all add: stringProps_def singleProps_def isStringType_def baseItems_def)
  have rc: "rowClick stringProps 1 ?s = Inr ?s'"
    by (simp add: rowClick_def fs st m rowHandleClick_def rowItemValue_def rowIsSelected_def
        isStringList_def selectedIsString_def selectedItems_def getStringListSelected_def
        nullish_def isStringType_def ex_defs)
  have kb: "handleKeyboardSelect stringProps 1 ?s = Inr ?s'"
    by (simp add: handleKeyboardSelect_def fs st m activeSelectedArray_def toArray_def
        nullish_def Let_def isStringType_def ex_defs)
  have sa: "selectedArray ?r = [JStr ''Alpha'', JStr ''Beta'']"
    by (simp add: selectedArray_def toArray_def initialState_def)
  have rm: "removedAt 1 [JStr ''Alpha'', JStr ''Beta''] = [JStr ''Alpha'']"
    "removedAt (Suc 0) [JStr ''Alpha'', JStr ''Beta''] = [JStr ''Alpha'']"
    by (simp_all add: removedAt_def)
  have rt: "rowClick singleProps 0 ?t = Inr ?t'"
    by (simp add: rowClick_def fs st m rowHandleClick_def rowItemValue_def rowIsSelected_def
        isStringList_def selectedIsString_def selectedItems_def getStringListSelected_def
        isStringType_def ex_defs singleProps_def)
  have sl: "isStringList (filteredItems ?t)"
    by (simp add: fs isStringList_def)
  show ?thesis
    using C6_onSelect_values [where p = stringProps and i = 1 and s = ?s and s' = ?s'
            and k = 1 and n = 1]
      C6_onSelect_values [where p = stringProps and i = 1 and s = ?r and s' = ?s'
            and k = 1 and n = 1]
      C6_onSelect_values [where p = singleProps and i = 0 and s = ?t and s' = ?t'
            and k = 0 and n = 0]
      m rc kb rt sl
    by (simp add: fs sa rm onSelectCalls_handleSelectItem)
qed

subsection \<open>Toggling twice\<close>



















end
